theory Spec2Isabelle
  imports Main
begin

section \<open>JavaScript values and operators used by form.js\<close>

text \<open>
  Strings are byte lists (UTF-8).  A property that may be missing from a JSON object, or
  that is \<^verbatim>\<open>null\<close>, is an \<open>option\<close>; \<open>None\<close> stands for \<^verbatim>\<open>undefined\<close>/\<^verbatim>\<open>null\<close>.
  A string is truthy when it is present and not empty, so \<^verbatim>\<open>a || b\<close> on optional strings
  is \<open>js_or\<close>.
\<close>

datatype js_error =
    Error string          \<comment> \<open>\<^verbatim>\<open>throw new Error(message)\<close>\<close>
  | TypeError             \<comment> \<open>property access on \<^verbatim>\<open>undefined\<close> or \<^verbatim>\<open>null\<close>\<close>
  | SelectorOutsideModel  \<comment> \<open>a selector text whose CSS tokenisation is not modelled\<close>

definition truthy :: "string option \<Rightarrow> bool" where
  "truthy v = (case v of None \<Rightarrow> False | Some s \<Rightarrow> s \<noteq> [])"

definition js_or :: "string option \<Rightarrow> string option \<Rightarrow> string option" where
  "js_or a b = (if truthy a then a else b)"

text \<open>\<^verbatim>\<open>a || "literal"\<close>: the result is always a string.\<close>

definition js_or_str :: "string option \<Rightarrow> string \<Rightarrow> string" where
  "js_or_str a d = (case a of None \<Rightarrow> d | Some s \<Rightarrow> if s \<noteq> [] then s else d)"

text \<open>\<^verbatim>\<open>Array.prototype.join(",")\<close> on an array of strings.\<close>

fun join_comma :: "string list \<Rightarrow> string" where
  "join_comma [] = []"
| "join_comma [x] = x"
| "join_comma (x # y # ys) = x @ '','' @ join_comma (y # ys)"

text \<open>
  \<^verbatim>\<open>encodeURIComponent\<close>: every byte of the UTF-8 form that is not an unreserved mark is
  written as \<^verbatim>\<open>%XX\<close> with upper-case hexadecimal digits.
\<close>

definition uri_unreserved :: "char \<Rightarrow> bool" where
  "uri_unreserved c \<longleftrightarrow>
     c \<in> set ''ABCDEFGHIJKLMNOPQRSTUVWXYZabcdefghijklmnopqrstuvwxyz0123456789-_.!~*()''
     \<or> c = CHR 0x27"

definition hex_digit :: "nat \<Rightarrow> char" where
  "hex_digit n = ''0123456789ABCDEF'' ! (n mod 16)"

definition encodeURIComponent :: "string \<Rightarrow> string" where
  "encodeURIComponent s =
     concat (map (\<lambda>c. if uri_unreserved c then [c]
                       else [CHR ''%'', hex_digit (of_char c div 16), hex_digit (of_char c mod 16)]) s)"

section \<open>getUrlParams (form.js, lines 8-21)\<close>

text \<open>
  The page location: the entries of \<^verbatim>\<open>new URLSearchParams(window.location.search)\<close> in
  their order, and \<^verbatim>\<open>window.location.pathname\<close>.  \<^verbatim>\<open>params.get(k)\<close> is the value of the
  first entry named \<open>k\<close>, or \<^verbatim>\<open>null\<close>.
\<close>

record location =
  loc_search :: "(string \<times> string) list"
  loc_pathname :: string

definition params_get :: "(string \<times> string) list \<Rightarrow> string \<Rightarrow> string option" where
  "params_get ps k = map_of ps k"

definition alnum :: "char \<Rightarrow> bool" where
  "alnum c \<longleftrightarrow>
     c \<in> set ''abcdefghijklmnopqrstuvwxyzABCDEFGHIJKLMNOPQRSTUVWXYZ0123456789''"

text \<open>
  \<^verbatim>\<open>path.match(/^\/form\/([a-zA-Z0-9]+)$/)\<close>: the capture group of the match, or \<open>None\<close>
  when the path does not match.
\<close>

definition match_form_path :: "string \<Rightarrow> string option" where
  "match_form_path path =
     (if take 6 path = ''/form/'' \<and> drop 6 path \<noteq> [] \<and> list_all alnum (drop 6 path)
      then Some (drop 6 path) else None)"

record url_params =
  up_fields :: string
  up_context :: "string option"
  up_sessionId :: "string option"
  up_isShortUrl :: bool

definition getUrlParams :: "location \<Rightarrow> url_params" where
  "getUrlParams loc =
     (let params = loc_search loc;
          path = loc_pathname loc;
          shortUrlMatch = match_form_path path
      in \<lparr> up_fields = js_or_str (params_get params ''fields'') [],
           up_context = js_or (params_get params ''context'') None,
           up_sessionId = js_or (params_get params ''session_id'') shortUrlMatch,
           up_isShortUrl = (shortUrlMatch \<noteq> None) \<rparr>)"

section \<open>The schema payload handed to renderForm\<close>

text \<open>
  The JSON object that \<^verbatim>\<open>/api/schema\<close> answers with, or that a session configuration carries
  as \<^verbatim>\<open>schema\<close>.  \<open>js_properties\<close> is the sequence \<^verbatim>\<open>Object.entries(properties)\<close> yields,
  \<open>sd_uiSchema\<close> the entries of the \<^verbatim>\<open>uiSchema\<close> object; enum values are strings.
\<close>

record field_schema =
  fs_title :: "string option"
  fs_description :: "string option"
  fs_type :: "string option"
  fs_format :: "string option"
  fs_enum :: "string list option"

record ui_field =
  ui_widget :: "string option"         \<comment> \<open>\<^verbatim>\<open>uiField["ui:widget"]\<close>\<close>
  ui_placeholder :: "string option"    \<comment> \<open>\<^verbatim>\<open>uiField["ui:placeholder"]\<close>\<close>

record json_schema =
  js_properties :: "(string \<times> field_schema) list option"
  js_required :: "string list option"

record schema_data =
  sd_title :: "string option"
  sd_description :: "string option"
  sd_schema :: "json_schema option"
  sd_uiSchema :: "(string \<times> ui_field) list option"
  sd_submitButtonText :: "string option"
  sd_error :: "string option"          \<comment> \<open>\<^verbatim>\<open>data.error\<close> of a failure body\<close>

section \<open>The rendered controls\<close>

datatype tag = INPUT | SELECT | TEXTAREA

text \<open>
  An element made by \<^verbatim>\<open>document.createElement\<close>, with the attributes renderForm sets and
  the state the user changes afterwards (\<open>c_value\<close>, \<open>c_checked\<close>).  For a selection
  control \<open>c_value\<close> is the value of the selected option.
\<close>

record control =
  c_tag :: tag
  c_type :: "string option"                 \<comment> \<open>\<^verbatim>\<open>input.type = ...\<close>\<close>
  c_id :: string
  c_name :: string
  c_required :: bool
  c_placeholder :: "string option"
  c_rows :: "nat option"
  c_options :: "(string \<times> string) list"   \<comment> \<open>\<^verbatim>\<open>(option.value, option.textContent)\<close>\<close>
  c_value :: string
  c_checked :: bool

definition createElement :: "tag \<Rightarrow> control" where
  "createElement t =
     \<lparr> c_tag = t, c_type = None, c_id = [], c_name = [], c_required = False,
       c_placeholder = None, c_rows = None, c_options = [], c_value = [], c_checked = False \<rparr>"

text \<open>
  The HTML parser of the browser, as far as the form sees it: the controls it builds from
  the markup of a help text.
\<close>

type_synonym html_parser = "string \<Rightarrow> control list"

text \<open>
  One \<^verbatim>\<open>div.form-field\<close>: the label, the help text with the controls its markup brought
  into the div, and the field's own control.
\<close>

record field_div =
  fd_label_text :: string
  fd_label_marker :: bool       \<comment> \<open>the \<^verbatim>\<open><span class='required'>*</span>\<close>\<close>
  fd_label_for :: string
  fd_help :: "string option"
  fd_help_controls :: "control list"
  fd_input :: control

record rendered =
  r_title :: string
  r_description :: string
  r_submit :: string
  r_fields :: "field_div list"

section \<open>renderForm (form.js, lines 101-203)\<close>

text \<open>\<^verbatim>\<open>schema.properties || {}\<close> and \<^verbatim>\<open>schema.required || []\<close>, lines 111-112.\<close>

definition schema_properties :: "json_schema \<Rightarrow> (string \<times> field_schema) list" where
  "schema_properties schema = (case js_properties schema of None \<Rightarrow> [] | Some ps \<Rightarrow> ps)"

definition schema_required :: "json_schema \<Rightarrow> string list" where
  "schema_required schema = (case js_required schema of None \<Rightarrow> [] | Some rs \<Rightarrow> rs)"

text \<open>\<^verbatim>\<open>uiSchema[fieldName] || {}\<close>, line 129: a field without hints gets the empty hint.\<close>

definition uiField_of :: "(string \<times> ui_field) list \<Rightarrow> string \<Rightarrow> ui_field" where
  "uiField_of uiSchema fieldName =
     (case map_of uiSchema fieldName of
        None \<Rightarrow> \<lparr> ui_widget = None, ui_placeholder = None \<rparr>
      | Some u \<Rightarrow> u)"

text \<open>
  Lines 125-126 and 197: a truthy description is put between \<^verbatim>\<open><small>\<close> tags and added to
  the div with \<^verbatim>\<open>fieldDiv.innerHTML += help\<close>, so it is parsed as HTML.  A description without
  \<^verbatim>\<open><\<close> is plain text and brings no element; from any other description the parser builds
  what its markup says, and the controls among that stand in the div.
\<close>

definition help_controls :: "html_parser \<Rightarrow> string option \<Rightarrow> control list" where
  "help_controls parse description =
     (case description of
        None \<Rightarrow> []
      | Some d \<Rightarrow> if d \<noteq> [] \<and> CHR ''<'' \<in> set d then parse d else [])"

text \<open>The body of the loop over \<^verbatim>\<open>Object.entries(properties)\<close>, lines 115-199.\<close>

definition render_field ::
  "html_parser \<Rightarrow> string list \<Rightarrow> (string \<times> ui_field) list \<Rightarrow> string \<Rightarrow> field_schema
    \<Rightarrow> field_div" where
  "render_field parse required uiSchema fieldName fieldSchema =
     (let uiField = uiField_of uiSchema fieldName;
          widget = js_or (js_or (ui_widget uiField) (fs_format fieldSchema)) (fs_type fieldSchema);
          input =
            (case fs_enum fieldSchema of
               Some values \<Rightarrow>
                 (createElement SELECT)
                   \<lparr> c_id := fieldName, c_name := fieldName,
                     c_required := fieldName \<in> set required,
                     c_options := ([], ''Select '' @ js_or_str (fs_title fieldSchema) fieldName)
                                   # map (\<lambda>v. (v, v)) values \<rparr>
             | None \<Rightarrow>
                 if fs_type fieldSchema = Some ''boolean'' then
                   (createElement INPUT)
                     \<lparr> c_type := Some ''checkbox'', c_id := fieldName, c_name := fieldName \<rparr>
                 else if fs_type fieldSchema = Some ''integer''
                         \<or> fs_type fieldSchema = Some ''number'' then
                   (createElement INPUT)
                     \<lparr> c_type := Some ''text'', c_id := fieldName, c_name := fieldName,
                       c_required := fieldName \<in> set required,
                       c_placeholder :=
                         (if \<not> truthy (ui_placeholder uiField)
                             \<and> fs_type fieldSchema = Some ''integer''
                          then Some ''Enter a number'' else None) \<rparr>
                 else if widget = Some ''password'' then
                   (createElement INPUT)
                     \<lparr> c_type := Some ''password'', c_id := fieldName, c_name := fieldName,
                       c_required := fieldName \<in> set required \<rparr>
                 else if widget = Some ''textarea'' then
                   (createElement TEXTAREA)
                     \<lparr> c_id := fieldName, c_name := fieldName,
                       c_required := fieldName \<in> set required, c_rows := Some 4 \<rparr>
                 else
                   (createElement INPUT)
                     \<lparr> c_type := Some ''text'', c_id := fieldName, c_name := fieldName,
                       c_required := fieldName \<in> set required,
                       c_placeholder :=
                         (if truthy (ui_placeholder uiField)
                          then ui_placeholder uiField else None) \<rparr>)
      in \<lparr> fd_label_text = js_or_str (fs_title fieldSchema) fieldName,
           fd_label_marker = (fieldName \<in> set required),
           fd_label_for = fieldName,
           fd_help = (if truthy (fs_description fieldSchema)
                      then fs_description fieldSchema else None),
           fd_help_controls = help_controls parse (fs_description fieldSchema),
           fd_input = input \<rparr>)"

text \<open>
  The loop itself.  \<^verbatim>\<open>uiSchema[fieldName]\<close> is evaluated in every iteration, and throws a
  TypeError when \<^verbatim>\<open>uiSchema\<close> is \<^verbatim>\<open>undefined\<close>; with no entry left the loop ends without
  touching \<^verbatim>\<open>uiSchema\<close>.
\<close>

fun render_fields ::
  "html_parser \<Rightarrow> string list \<Rightarrow> (string \<times> ui_field) list option
    \<Rightarrow> (string \<times> field_schema) list \<Rightarrow> js_error + field_div list" where
  "render_fields parse required uiSchema [] = Inr []"
| "render_fields parse required uiSchema ((fieldName, fieldSchema) # rest) =
     (case uiSchema of
        None \<Rightarrow> Inl TypeError
      | Some u \<Rightarrow>
          (case render_fields parse required uiSchema rest of
             Inl e \<Rightarrow> Inl e
           | Inr ds \<Rightarrow> Inr (render_field parse required u fieldName fieldSchema # ds)))"

text \<open>
  renderForm returns what it has drawn, or the exception it throws.  \<^verbatim>\<open>schema.properties\<close>
  throws when the payload has no \<^verbatim>\<open>schema\<close>.  What a throwing call had already written to
  the document is not kept.
\<close>

definition renderForm :: "html_parser \<Rightarrow> schema_data \<Rightarrow> js_error + rendered" where
  "renderForm parse schemaData =
     (case sd_schema schemaData of
        None \<Rightarrow> Inl TypeError
      | Some schema \<Rightarrow>
          (let properties = schema_properties schema;
               required = schema_required schema
           in case render_fields parse required (sd_uiSchema schemaData) properties of
                Inl e \<Rightarrow> Inl e
              | Inr ds \<Rightarrow>
                  Inr \<lparr> r_title = (case sd_title schemaData of None \<Rightarrow> [] | Some t \<Rightarrow> t),
                        r_description = js_or_str (sd_description schemaData) [],
                        r_submit = js_or_str (sd_submitButtonText schemaData) ''Submit'',
                        r_fields = ds \<rparr>))"

section \<open>The submit listener (form.js, lines 206-253)\<close>

text \<open>
  The values the listener stores in \<^verbatim>\<open>data\<close>.  \<open>JParsedFloat s\<close> is the Number that
  \<^verbatim>\<open>parseFloat(s)\<close> returns, kept symbolic.
\<close>

datatype js_value = JBool bool | JNull | JParsedFloat string | JString string

text \<open>
  The object \<^verbatim>\<open>data\<close>: its own properties with their values, in the order in which the
  keys were first assigned.
\<close>

type_synonym payload = "(string \<times> js_value) list"

text \<open>Assigning an own property: an existing key keeps its place, a new key goes last.\<close>

fun assign :: "payload \<Rightarrow> string \<Rightarrow> js_value \<Rightarrow> payload" where
  "assign [] key v = [(key, v)]"
| "assign ((k, w) # rest) key v =
     (if k = key then (key, v) # rest else (k, w) # assign rest key v)"

text \<open>
  \<^verbatim>\<open>data[key] = v\<close> on an ordinary object with a primitive \<open>v\<close>: the key \<^verbatim>\<open>__proto__\<close> reaches
  the setter of \<^verbatim>\<open>Object.prototype\<close>, which makes no own property.
\<close>

definition set_prop :: "payload \<Rightarrow> string \<Rightarrow> js_value \<Rightarrow> payload" where
  "set_prop data key v = (if key = ''__proto__'' then data else assign data key v)"

text \<open>
  \<^verbatim>\<open>field.type\<close>: the type keyword of an input (renderForm assigns only \<^verbatim>\<open>checkbox\<close>,
  \<^verbatim>\<open>text\<close> and \<^verbatim>\<open>password\<close>, which read back unchanged), \<^verbatim>\<open>select-one\<close> for a selection
  control without \<^verbatim>\<open>multiple\<close>, \<^verbatim>\<open>textarea\<close> for a text area.
\<close>

definition el_type :: "control \<Rightarrow> string" where
  "el_type c =
     (case c_tag c of
        INPUT \<Rightarrow> (case c_type c of None \<Rightarrow> ''text'' | Some t \<Rightarrow> t)
      | SELECT \<Rightarrow> ''select-one''
      | TEXTAREA \<Rightarrow> ''textarea'')"

text \<open>
  The entry list of \<^verbatim>\<open>new FormData(form)\<close> over the controls of the form in tree order
  (HTML, "constructing the entry list"): a control with an empty name contributes nothing,
  a checkbox contributes \<^verbatim>\<open>(name, "on")\<close> only when it is checked, every other control
  contributes its name and current value.
\<close>

fun formData_entries :: "control list \<Rightarrow> (string \<times> string) list" where
  "formData_entries [] = []"
| "formData_entries (c # cs) =
     (if c_name c = [] then formData_entries cs
      else if el_type c = ''checkbox'' then
        (if c_checked c then (c_name c, ''on'') # formData_entries cs else formData_entries cs)
      else (c_name c, c_value c) # formData_entries cs)"

text \<open>
  \<^verbatim>\<open>e.target.querySelector(`[name="${key}"]`)\<close>.  For a key without quotation mark,
  backslash, line break or NUL the selector's string is the key itself, and the result is
  the first control of the form whose name is the key, or \<^verbatim>\<open>null\<close>.  Other keys are
  tokenised by the CSS parser into another string or rejected; the model stops there with
  \<open>SelectorOutsideModel\<close>.
\<close>

definition css_plain :: "string \<Rightarrow> bool" where
  "css_plain key =
     list_all (\<lambda>c. c \<notin> set [CHR 0x22, CHR 0x5C, CHR 0x0A, CHR 0x0C, CHR 0x0D, CHR 0x00]) key"

definition querySelector_name :: "control list \<Rightarrow> string \<Rightarrow> js_error + control option" where
  "querySelector_name form key =
     (if css_plain key then Inr (find (\<lambda>c. c_name c = key) form)
      else Inl SelectorOutsideModel)"

text \<open>The loop of lines 212-221 over the entries; \<^verbatim>\<open>field.type\<close> on \<^verbatim>\<open>null\<close> throws.\<close>

fun collect :: "control list \<Rightarrow> (string \<times> string) list \<Rightarrow> payload \<Rightarrow> js_error + payload" where
  "collect form [] data = Inr data"
| "collect form ((key, val) # rest) data =
     (case querySelector_name form key of
        Inl e \<Rightarrow> Inl e
      | Inr None \<Rightarrow> Inl TypeError
      | Inr (Some field) \<Rightarrow>
          if el_type field = ''checkbox'' then
            collect form rest (set_prop data key (JBool (c_checked field)))
          else if el_type field = ''number'' then
            collect form rest
              (set_prop data key
                 (if c_value field \<noteq> [] then JParsedFloat (c_value field) else JNull))
          else collect form rest (set_prop data key (JString val)))"

text \<open>
  Lines 209-227: the object that is handed to \<^verbatim>\<open>JSON.stringify\<close> and posted to
  \<^verbatim>\<open>/api/submit\<close>, or the exception that ends the listener before any request is made.
  The browser fires the submit event, and so runs the listener, only when no control marked
  required is empty.
\<close>

definition submit_payload :: "location \<Rightarrow> control list \<Rightarrow> js_error + payload" where
  "submit_payload loc form =
     (case collect form (formData_entries form) [] of
        Inl e \<Rightarrow> Inl e
      | Inr data \<Rightarrow>
          (let params = getUrlParams loc
           in case up_sessionId params of
                None \<Rightarrow> Inr data
              | Some sid \<Rightarrow>
                  if sid \<noteq> [] then Inr (set_prop data ''_session_id'' (JString sid))
                  else Inr data))"

text \<open>
  The controls of the form after rendering, in tree order: in every div the controls of the
  help text (line 197) stand before the field's own control (line 198).  The markup of the
  page is not among the sources: the form \<^verbatim>\<open>#user-form\<close> is taken to hold \<^verbatim>\<open>#form-fields\<close>
  and, beside what renderForm put there, no other control with a name.
\<close>

definition live_controls :: "rendered \<Rightarrow> control list" where
  "live_controls r = concat (map (\<lambda>d. fd_help_controls d @ [fd_input d]) (r_fields r))"

text \<open>
  What the user does to the controls: typing into a control, or choosing an option, sets its
  value; clicking a checkbox sets its checked state.
\<close>

definition user_enters :: "string \<Rightarrow> string \<Rightarrow> control list \<Rightarrow> control list" where
  "user_enters n text form = map (\<lambda>c. if c_name c = n then c\<lparr>c_value := text\<rparr> else c) form"

definition user_sets_checked :: "string \<Rightarrow> bool \<Rightarrow> control list \<Rightarrow> control list" where
  "user_sets_checked n b form = map (\<lambda>c. if c_name c = n then c\<lparr>c_checked := b\<rparr> else c) form"

section \<open>generateForm (form.js, lines 38-98)\<close>

datatype view_section = Loading | ErrorSection | FormContainer | SuccessContainer

text \<open>The two \<^verbatim>\<open>fetch\<close> call sites of generateForm, each with the URL it is given.\<close>

datatype fetch_call = ConfigLookup string | SchemaGeneration string

text \<open>
  What a \<^verbatim>\<open>fetch\<close> followed by \<^verbatim>\<open>response.json()\<close> gives: the fetch rejects, or the body is
  not JSON (each with the message of the error it rejects with), or there is a response with
  its \<^verbatim>\<open>ok\<close> flag and parsed body.
\<close>

datatype 'a fetch_result = NetworkError string | BodyError string | Response bool 'a

record config_data =
  cd_success :: bool
  cd_error :: "string option"
  cd_fields :: "string list option"
  cd_context :: "string option"
  cd_schema :: "schema_data option"

text \<open>
  The servers behind the two endpoints, the message text the engine gives to the exceptions
  it raises itself, and the HTML parser.
\<close>

record env =
  config_api :: "string \<Rightarrow> config_data fetch_result"
  schema_api :: "string \<Rightarrow> schema_data fetch_result"
  engine_text :: "js_error \<Rightarrow> string"
  html_controls :: html_parser

definition message :: "env \<Rightarrow> js_error \<Rightarrow> string" where
  "message env e = (case e of Error m \<Rightarrow> m | _ \<Rightarrow> engine_text env e)"

text \<open>
  The document: which section is displayed, the text of \<^verbatim>\<open>#error-message\<close>, the form last
  drawn, and the fetch calls made so far.
\<close>

record page =
  pg_visible :: view_section
  pg_error_message :: string
  pg_form :: "rendered option"
  pg_fetches :: "fetch_call list"

definition showSection :: "view_section \<Rightarrow> page \<Rightarrow> page" where
  "showSection s p = p\<lparr>pg_visible := s\<rparr>"

definition showError :: "string \<Rightarrow> page \<Rightarrow> page" where
  "showError m p = showSection ErrorSection (p\<lparr>pg_error_message := m\<rparr>)"

text \<open>
  Lines 43-66 up to the \<^verbatim>\<open>catch\<close>: the exception thrown inside the \<^verbatim>\<open>try\<close>, or the updated
  parameters with the pre-generated schema.
\<close>

definition resolveSession ::
  "env \<Rightarrow> url_params \<Rightarrow> page \<Rightarrow> (js_error + url_params \<times> schema_data option) \<times> page" where
  "resolveSession env params p =
     (case up_sessionId params of
        Some sid \<Rightarrow>
          if up_isShortUrl params \<and> sid \<noteq> [] then
            (let p1 = showSection Loading p;
                 url = ''/api/form-config/'' @ sid;
                 p2 = p1\<lparr>pg_fetches := pg_fetches p1 @ [ConfigLookup url]\<rparr>
             in case config_api env url of
                  NetworkError m \<Rightarrow> (Inl (Error m), p2)
                | BodyError m \<Rightarrow> (Inl (Error m), p2)
                | Response ok configData \<Rightarrow>
                    if \<not> ok \<or> \<not> cd_success configData then
                      (Inl (Error (js_or_str (cd_error configData) ''Form config not found'')), p2)
                    else
                      (case cd_fields configData of
                         None \<Rightarrow> (Inl TypeError, p2)
                       | Some fs \<Rightarrow>
                           (Inr (params\<lparr>up_fields := join_comma fs,
                                        up_context := cd_context configData\<rparr>,
                                 cd_schema configData), p2)))
          else (Inr (params, None), p)
      | None \<Rightarrow> (Inr (params, None), p))"

text \<open>Lines 76-92: the schema payload to render, or the exception thrown.\<close>

definition fetchSchema ::
  "env \<Rightarrow> url_params \<Rightarrow> schema_data option \<Rightarrow> page \<Rightarrow> (js_error + schema_data) \<times> page" where
  "fetchSchema env params preGeneratedSchema p =
     (case preGeneratedSchema of
        Some d \<Rightarrow> (Inr d, p)
      | None \<Rightarrow>
          (let url = ''/api/schema?fields='' @ encodeURIComponent (up_fields params)
                     @ (case up_context params of
                          None \<Rightarrow> []
                        | Some c \<Rightarrow> if c \<noteq> [] then ''&context='' @ encodeURIComponent c else []);
               p1 = p\<lparr>pg_fetches := pg_fetches p @ [SchemaGeneration url]\<rparr>
           in case schema_api env url of
                NetworkError m \<Rightarrow> (Inl (Error m), p1)
              | BodyError m \<Rightarrow> (Inl (Error m), p1)
              | Response ok d \<Rightarrow>
                  if \<not> ok then
                    (Inl (Error (js_or_str (sd_error d) ''Failed to generate form'')), p1)
                  else (Inr d, p1)))"

definition generateForm :: "env \<Rightarrow> location \<Rightarrow> page \<Rightarrow> page" where
  "generateForm env loc p =
     (let params = getUrlParams loc
      in case resolveSession env params p of
           (Inl e, p1) \<Rightarrow> showError (''Error: '' @ message env e) p1
         | (Inr (params', preGeneratedSchema), p1) \<Rightarrow>
             if up_fields params' = [] then
               showError ''No fields specified. Add ?fields=field1,field2 to the URL.'' p1
             else
               (let p2 = showSection Loading p1
                in case fetchSchema env params' preGeneratedSchema p2 of
                     (Inl e, p3) \<Rightarrow>
                       showError (''Error generating form: '' @ message env e) p3
                   | (Inr d, p3) \<Rightarrow>
                       (case renderForm (html_controls env) d of
                          Inl e \<Rightarrow> showError (''Error generating form: '' @ message env e) p3
                        | Inr r \<Rightarrow> showSection FormContainer (p3\<lparr>pg_form := Some r\<rparr>))))"

section \<open>Scenarios\<close>

text \<open>
  The controls of the form that renderForm draws from a payload, and a round trip: the
  payload is rendered, the user acts on the controls, and the form is submitted.
\<close>

definition rendered_controls :: "html_parser \<Rightarrow> schema_data \<Rightarrow> js_error + control list" where
  "rendered_controls parse schemaData =
     (case renderForm parse schemaData of
        Inl e \<Rightarrow> Inl e
      | Inr r \<Rightarrow> Inr (live_controls r))"

definition submit_rendered ::
  "html_parser \<Rightarrow> schema_data \<Rightarrow> (control list \<Rightarrow> control list) \<Rightarrow> location
    \<Rightarrow> js_error + payload" where
  "submit_rendered parse schemaData user loc =
     (case renderForm parse schemaData of
        Inl e \<Rightarrow> Inl e
      | Inr r \<Rightarrow> submit_payload loc (user (live_controls r)))"

definition plain_field :: "string \<Rightarrow> field_schema" where
  "plain_field ty =
     \<lparr> fs_title = None, fs_description = None, fs_type = Some ty, fs_format = None,
       fs_enum = None \<rparr>"

text \<open>A form with a single field, which is not required.\<close>

definition one_field_form :: "string \<Rightarrow> field_schema \<Rightarrow> (string \<times> ui_field) list \<Rightarrow> schema_data" where
  "one_field_form n fs hints =
     \<lparr> sd_title = Some ''Form'', sd_description = None,
       sd_schema = Some \<lparr> js_properties = Some [(n, fs)], js_required = Some [] \<rparr>,
       sd_uiSchema = Some hints, sd_submitButtonText = None, sd_error = None \<rparr>"

text \<open>The page at path \<^verbatim>\<open>/\<close> with no query parameter.\<close>

definition root_location :: location where
  "root_location = \<lparr> loc_search = [], loc_pathname = ''/'' \<rparr>"

text \<open>
  The page before generateForm runs, taken to show the loading section: nothing fetched or
  drawn yet.
\<close>

definition fresh_page :: page where
  "fresh_page =
     \<lparr> pg_visible = Loading, pg_error_message = [], pg_form = None, pg_fetches = [] \<rparr>"

text \<open>A form with a required integer field and a required boolean field, no hints.\<close>

definition signup_schema :: json_schema where
  "signup_schema =
     \<lparr> js_properties = Some [(''age'', plain_field ''integer''), (''agree'', plain_field ''boolean'')],
       js_required = Some [''age'', ''agree''] \<rparr>"

definition signup_form :: schema_data where
  "signup_form =
     \<lparr> sd_title = Some ''Sign up'', sd_description = None, sd_schema = Some signup_schema,
       sd_uiSchema = Some [], sd_submitButtonText = None, sd_error = None \<rparr>"

definition colour_field :: field_schema where
  "colour_field =
     \<lparr> fs_title = Some ''Colour'', fs_description = None, fs_type = Some ''string'',
       fs_format = None, fs_enum = Some [''a'', ''b'', ''c''] \<rparr>"

text \<open>A string field with \<^verbatim>\<open>format: "password"\<close>, and a hint that asks for a text area.\<close>

definition secret_field :: field_schema where
  "secret_field =
     \<lparr> fs_title = None, fs_description = None, fs_type = Some ''string'',
       fs_format = Some ''password'', fs_enum = None \<rparr>"

definition textarea_hint :: "(string \<times> ui_field) list" where
  "textarea_hint = [(''secret'', \<lparr> ui_widget = Some ''textarea'', ui_placeholder = None \<rparr>)]"

text \<open>An integer field restricted to two values.\<close>

definition level_field :: field_schema where
  "level_field =
     \<lparr> fs_title = None, fs_description = None, fs_type = Some ''integer'',
       fs_format = None, fs_enum = Some [''1'', ''2''] \<rparr>"

text \<open>
  A string field whose description holds markup, and what the HTML parser builds from that
  description: an input element named \<^verbatim>\<open>other\<close> with no other attribute.  No other
  description with markup is used below.
\<close>

definition described_field :: field_schema where
  "described_field =
     \<lparr> fs_title = None, fs_description = Some ''See <input name=other>'',
       fs_type = Some ''string'', fs_format = None, fs_enum = None \<rparr>"

definition sample_parser :: html_parser where
  "sample_parser d =
     (if d = ''See <input name=other>'' then [(createElement INPUT)\<lparr>c_name := ''other''\<rparr>]
      else [])"

text \<open>
  Servers that cannot be reached, and a session server that knows the session \<^verbatim>\<open>abc123\<close>
  with the fields of the sign-up form and its schema, pre-generated.
\<close>

definition offline_env :: env where
  "offline_env =
     \<lparr> config_api = (\<lambda>url. NetworkError ''Failed to fetch''),
       schema_api = (\<lambda>url. NetworkError ''Failed to fetch''),
       engine_text = (\<lambda>e. ''TypeError''), html_controls = sample_parser \<rparr>"

definition signup_config :: config_data where
  "signup_config =
     \<lparr> cd_success = True, cd_error = None, cd_fields = Some [''age'', ''agree''],
       cd_context = Some ''signup'', cd_schema = Some signup_form \<rparr>"

definition session_env :: env where
  "session_env =
     \<lparr> config_api = (\<lambda>url. if url = ''/api/form-config/abc123'' then Response True signup_config
                             else Response False
                                    \<lparr> cd_success = False, cd_error = None, cd_fields = None,
                                      cd_context = None, cd_schema = None \<rparr>),
       schema_api = (\<lambda>url. NetworkError ''Failed to fetch''),
       engine_text = (\<lambda>e. ''TypeError''), html_controls = sample_parser \<rparr>"

text \<open>A session server whose configuration lists no field.\<close>

definition empty_fields_env :: env where
  "empty_fields_env =
     \<lparr> config_api = (\<lambda>url. Response True (signup_config\<lparr>cd_fields := Some []\<rparr>)),
       schema_api = (\<lambda>url. NetworkError ''Failed to fetch''),
       engine_text = (\<lambda>e. ''TypeError''), html_controls = sample_parser \<rparr>"

definition session_location :: location where
  "session_location = \<lparr> loc_search = [], loc_pathname = ''/form/abc123'' \<rparr>"

definition fields_location :: location where
  "fields_location = \<lparr> loc_search = [(''fields'', ''username,email'')], loc_pathname = ''/'' \<rparr>"

section \<open>Facts about renderForm\<close>

text \<open>With a \<^verbatim>\<open>uiSchema\<close> the loop runs through; without one it stops at its first entry.\<close>

lemma render_fields_Some:
  "render_fields parse req (Some u) ps = Inr (map (\<lambda>(n, fs). render_field parse req u n fs) ps)"
  by (induction ps) auto

lemma render_fields_None:
  "ps \<noteq> [] \<Longrightarrow> render_fields parse req None ps = Inl TypeError"
  by (cases ps) auto

lemma renderForm_fields:
  assumes "sd_schema sd = Some s" and "sd_uiSchema sd = Some u"
  shows "\<exists>r. renderForm parse sd = Inr r \<and>
             r_fields r = map (\<lambda>(n, fs). render_field parse (schema_required s) u n fs) (schema_properties s)"
  using assms by (simp add: renderForm_def render_fields_Some)

lemma renderForm_nth:
  assumes "sd_schema sd = Some s" and "sd_uiSchema sd = Some u"
    and "i < length (schema_properties s)" and "schema_properties s ! i = (n, fs)"
  shows "\<exists>r. renderForm parse sd = Inr r \<and> r_fields r ! i = render_field parse (schema_required s) u n fs"
proof -
  from renderForm_fields [OF assms(1,2)] obtain r where
    r: "renderForm parse sd = Inr r"
    and fields: "r_fields r = map (\<lambda>(n, fs). render_field parse (schema_required s) u n fs) (schema_properties s)"
    by blast
  from assms(3,4) have "r_fields r ! i = render_field parse (schema_required s) u n fs"
    unfolding fields by simp
  with r show ?thesis by blast
qed

text \<open>What the loop body gives a control, read off branch by branch.\<close>

lemma render_field_name: "c_name (fd_input (render_field parse req u n fs)) = n"
  by (simp add: render_field_def createElement_def Let_def split: option.splits)

lemma render_field_label_for: "fd_label_for (render_field parse req u n fs) = n"
  by (simp add: render_field_def Let_def)

lemma render_field_toggle:
  "el_type (fd_input (render_field parse req u n fs)) = ''checkbox''
     \<longleftrightarrow> fs_enum fs = None \<and> fs_type fs = Some ''boolean''"
  by (simp add: render_field_def createElement_def el_type_def Let_def split: option.splits)

lemma render_field_required:
  "c_required (fd_input (render_field parse req u n fs))
     \<longleftrightarrow> n \<in> set req \<and> \<not> (fs_enum fs = None \<and> fs_type fs = Some ''boolean'')"
  by (simp add: render_field_def createElement_def Let_def split: option.splits)

lemma render_field_enum:
  "fs_enum fs = Some vs \<Longrightarrow>
     fd_input (render_field parse req u n fs) =
       (createElement SELECT)
         \<lparr> c_id := n, c_name := n, c_required := n \<in> set req,
           c_options := ([], ''Select '' @ js_or_str (fs_title fs) n) # map (\<lambda>v. (v, v)) vs \<rparr>"
  by (simp add: render_field_def Let_def)

lemma render_field_password:
  assumes "fs_enum fs = None" and "fs_type fs \<noteq> Some ''boolean''"
    and "fs_type fs \<noteq> Some ''integer''" and "fs_type fs \<noteq> Some ''number''"
    and "ui_widget (uiField_of u n) = Some ''password''
         \<or> (\<not> truthy (ui_widget (uiField_of u n)) \<and> fs_format fs = Some ''password'')"
  shows "fd_input (render_field parse req u n fs) =
           (createElement INPUT)
             \<lparr> c_type := Some ''password'', c_id := n, c_name := n, c_required := n \<in> set req \<rparr>"
proof -
  from assms(5)
  have "js_or (js_or (ui_widget (uiField_of u n)) (fs_format fs)) (fs_type fs) = Some ''password''"
    by (auto simp: js_or_def truthy_def)
  with assms(1-4) show ?thesis
    by (simp add: render_field_def Let_def)
qed

lemma render_field_placeholder:
  "c_placeholder (fd_input (render_field parse req u n fs)) =
     (case fs_enum fs of
        Some vs \<Rightarrow> None
      | None \<Rightarrow>
          if fs_type fs = Some ''boolean'' then None
          else if fs_type fs = Some ''integer'' then
            (if truthy (ui_placeholder (uiField_of u n)) then None else Some ''Enter a number'')
          else if fs_type fs = Some ''number'' then None
          else if js_or (js_or (ui_widget (uiField_of u n)) (fs_format fs)) (fs_type fs)
                    \<in> {Some ''password'', Some ''textarea''} then None
          else if truthy (ui_placeholder (uiField_of u n)) then ui_placeholder (uiField_of u n)
          else None)"
  by (simp add: render_field_def createElement_def Let_def split: option.splits)

section \<open>The renderer\<close>

text \<open>
  When no description holds markup, the form has one control per entry of
  \<^verbatim>\<open>properties\<close>, in the order of the entries: names and ids of the controls and the
  \<^verbatim>\<open>for\<close> attributes of the labels are the keys, the label texts are the titles (the key
  where the title is missing or empty), and a control is marked required exactly when it is
  not a checkbox and its name is in \<^verbatim>\<open>required\<close>.
\<close>

lemma render_field_id: "c_id (fd_input (render_field parse req u n fs)) = n"
  by (simp add: render_field_def createElement_def Let_def split: option.splits)

lemma render_field_label_text:
  "fd_label_text (render_field parse req u n fs) = js_or_str (fs_title fs) n"
  by (simp add: render_field_def Let_def)

lemma render_field_help_controls:
  "fd_help_controls (render_field parse req u n fs) = help_controls parse (fs_description fs)"
  by (simp add: render_field_def Let_def)

lemma help_controls_plain_text:
  "\<forall>d. description = Some d \<longrightarrow> CHR ''<'' \<notin> set d \<Longrightarrow> help_controls parse description = []"
  by (simp add: help_controls_def split: option.splits)

lemma renderForm_controls_without_markup:
  assumes "sd_schema sd = Some s" and "sd_uiSchema sd = Some u"
    and plain: "\<forall>(n, fs) \<in> set (schema_properties s).
                  \<forall>d. fs_description fs = Some d \<longrightarrow> CHR ''<'' \<notin> set d"
  shows "\<exists>r. renderForm parse sd = Inr r
           \<and> live_controls r = map fd_input (r_fields r)
           \<and> map c_name (live_controls r) = map fst (schema_properties s)
           \<and> map c_id (live_controls r) = map fst (schema_properties s)
           \<and> map fd_label_for (r_fields r) = map fst (schema_properties s)
           \<and> map fd_label_text (r_fields r) =
               map (\<lambda>(n, fs). js_or_str (fs_title fs) n) (schema_properties s)
           \<and> (\<forall>c \<in> set (live_controls r).
                 c_required c \<longleftrightarrow>
                   el_type c \<noteq> ''checkbox'' \<and> c_name c \<in> set (schema_required s))"
proof -
  from renderForm_fields [OF assms(1,2)] obtain r where
    r: "renderForm parse sd = Inr r"
    and fields: "r_fields r =
                   map (\<lambda>(n, fs). render_field parse (schema_required s) u n fs) (schema_properties s)"
    by blast
  have none: "fd_help_controls d = []" if "d \<in> set (r_fields r)" for d
  proof -
    from that obtain n fs where "(n, fs) \<in> set (schema_properties s)"
      and "d = render_field parse (schema_required s) u n fs"
      unfolding fields by auto
    with plain show ?thesis
      by (auto simp add: render_field_help_controls intro: help_controls_plain_text)
  qed
  have "concat (map (\<lambda>d. fd_help_controls d @ [fd_input d]) ds) = map fd_input ds"
    if "\<forall>d \<in> set ds. fd_help_controls d = []" for ds :: "field_div list"
    using that by (induction ds) auto
  with none have live: "live_controls r = map fd_input (r_fields r)"
    by (simp add: live_controls_def)
  have names: "map c_name (live_controls r) = map fst (schema_properties s)"
    unfolding live fields by (simp add: render_field_name split_beta)
  have ids: "map c_id (live_controls r) = map fst (schema_properties s)"
    unfolding live fields by (simp add: render_field_id split_beta)
  have fors: "map fd_label_for (r_fields r) = map fst (schema_properties s)"
    unfolding fields by (simp add: render_field_label_for split_beta)
  have texts: "map fd_label_text (r_fields r) =
                 map (\<lambda>(n, fs). js_or_str (fs_title fs) n) (schema_properties s)"
    unfolding fields by (simp add: render_field_label_text split_beta)
  have req: "c_required c \<longleftrightarrow> el_type c \<noteq> ''checkbox'' \<and> c_name c \<in> set (schema_required s)"
    if "c \<in> set (live_controls r)" for c
  proof -
    from that obtain n fs where "c = fd_input (render_field parse (schema_required s) u n fs)"
      unfolding live fields by auto
    then show ?thesis
      by (auto simp add: render_field_required render_field_toggle render_field_name)
  qed
  from r live names ids fors texts req show ?thesis by blast
qed

text \<open>
  C3.  renderForm does not do what the claim says when a description holds markup.  The
  labels and the option texts are set as text (lines 119, 141, 147), but the description is
  put into the div through \<^verbatim>\<open>innerHTML\<close> (lines 125-126, 197).  The single field \<^verbatim>\<open>name\<close>
  with the description \<^verbatim>\<open>See <input name=other>\<close> gives a form with two controls: the
  input named \<^verbatim>\<open>other\<close> from the description, without label, and the field's own input.
\<close>

theorem renderForm_description_markup_adds_control:
  "map fst (schema_properties
               \<lparr> js_properties = Some [(''name'', described_field)], js_required = Some [] \<rparr>) =
     [''name'']
   \<and> renderForm sample_parser (one_field_form ''name'' described_field []) =
       Inr \<lparr> r_title = ''Form'', r_description = [], r_submit = ''Submit'',
             r_fields =
               [\<lparr> fd_label_text = ''name'', fd_label_marker = False, fd_label_for = ''name'',
                   fd_help = Some ''See <input name=other>'',
                   fd_help_controls =
                     [\<lparr> c_tag = INPUT, c_type = None, c_id = [], c_name = ''other'',
                        c_required = False, c_placeholder = None, c_rows = None,
                        c_options = [], c_value = [], c_checked = False \<rparr>],
                   fd_input =
                     \<lparr> c_tag = INPUT, c_type = Some ''text'', c_id = ''name'', c_name = ''name'',
                       c_required = False, c_placeholder = None, c_rows = None,
                       c_options = [], c_value = [], c_checked = False \<rparr> \<rparr>] \<rparr>
   \<and> rendered_controls sample_parser (one_field_form ''name'' described_field []) =
       Inr [\<lparr> c_tag = INPUT, c_type = None, c_id = [], c_name = ''other'',
               c_required = False, c_placeholder = None, c_rows = None,
               c_options = [], c_value = [], c_checked = False \<rparr>,
            \<lparr> c_tag = INPUT, c_type = Some ''text'', c_id = ''name'', c_name = ''name'',
               c_required = False, c_placeholder = None, c_rows = None,
               c_options = [], c_value = [], c_checked = False \<rparr>]"
  by (simp add: described_field_def sample_parser_def one_field_form_def rendered_controls_def
      live_controls_def renderForm_def schema_properties_def schema_required_def
      render_field_def help_controls_def uiField_of_def createElement_def
      js_or_def js_or_str_def truthy_def)

text \<open>
  C6.  A field whose schema has an \<^verbatim>\<open>enum\<close> of \<open>n\<close> values is drawn as a selection control
  with \<open>n + 1\<close> options: first an option with the empty value and the text
  \<^verbatim>\<open>Select\<close> followed by the title (by the field name when the title is missing or empty),
  then one option per enum value in the enum's order, whose value and text are that value.
\<close>

theorem renderForm_enum_options:
  assumes "sd_schema sd = Some s" and "sd_uiSchema sd = Some u"
    and "i < length (schema_properties s)" and "schema_properties s ! i = (n, fs)"
    and "fs_enum fs = Some vs"
  shows "\<exists>r. renderForm parse sd = Inr r
           \<and> c_tag (fd_input (r_fields r ! i)) = SELECT
           \<and> c_name (fd_input (r_fields r ! i)) = n
           \<and> c_options (fd_input (r_fields r ! i)) =
               ([], ''Select '' @ (case fs_title fs of None \<Rightarrow> n | Some t \<Rightarrow> if t = [] then n else t))
                 # map (\<lambda>v. (v, v)) vs
           \<and> length (c_options (fd_input (r_fields r ! i))) = length vs + 1"
proof -
  from renderForm_nth [OF assms(1-4)] obtain r where
    r: "renderForm parse sd = Inr r" and d: "r_fields r ! i = render_field parse (schema_required s) u n fs"
    by blast
  have "js_or_str (fs_title fs) n = (case fs_title fs of None \<Rightarrow> n | Some t \<Rightarrow> if t = [] then n else t)"
    by (simp add: js_or_str_def split: option.splits)
  with r d assms(5) show ?thesis
    by (simp add: render_field_enum createElement_def)
qed

theorem renderForm_enum_options_witness:
  "\<exists>r. renderForm sample_parser (one_field_form ''colour'' colour_field []) = Inr r
       \<and> c_tag (fd_input (r_fields r ! 0)) = SELECT
       \<and> c_options (fd_input (r_fields r ! 0)) =
           [([], ''Select Colour''), (''a'', ''a''), (''b'', ''b''), (''c'', ''c'')]
       \<and> length (c_options (fd_input (r_fields r ! 0))) = 4"
proof -
  let ?s = "\<lparr> js_properties = Some [(''colour'', colour_field)], js_required = Some [] \<rparr>"
  have h1: "sd_schema (one_field_form ''colour'' colour_field []) = Some ?s"
    and h2: "sd_uiSchema (one_field_form ''colour'' colour_field []) = Some []"
    and h3: "0 < length (schema_properties ?s)"
    and h4: "schema_properties ?s ! 0 = (''colour'', colour_field)"
    and h5: "fs_enum colour_field = Some [''a'', ''b'', ''c'']"
    by (simp_all add: one_field_form_def schema_properties_def colour_field_def)
  from renderForm_enum_options [OF h1 h2 h3 h4 h5, where parse = sample_parser] show ?thesis
    by (auto simp add: colour_field_def)
qed

text \<open>
  C4, as the claim states it, fails: a string field with \<^verbatim>\<open>format: "password"\<close> whose hint
  names the widget \<^verbatim>\<open>textarea\<close> is drawn as a text area, because a hint that is present
  takes the place of the format in line 130.
\<close>

theorem renderForm_password_widget_counterexample:
  "fs_enum secret_field = None \<and> fs_type secret_field = Some ''string''
   \<and> fs_format secret_field = Some ''password''
   \<and> renderForm sample_parser (one_field_form ''secret'' secret_field textarea_hint) =
       Inr \<lparr> r_title = ''Form'', r_description = [], r_submit = ''Submit'',
             r_fields =
               [\<lparr> fd_label_text = ''secret'', fd_label_marker = False, fd_label_for = ''secret'',
                   fd_help = None, fd_help_controls = [],
                   fd_input =
                     \<lparr> c_tag = TEXTAREA, c_type = None, c_id = ''secret'', c_name = ''secret'',
                       c_required = False, c_placeholder = None, c_rows = Some 4,
                       c_options = [], c_value = [], c_checked = False \<rparr> \<rparr>] \<rparr>"
  by (simp add: secret_field_def textarea_hint_def one_field_form_def renderForm_def
      schema_properties_def schema_required_def render_field_def help_controls_def
      uiField_of_def createElement_def js_or_def js_or_str_def truthy_def)

text \<open>
  C4, amended.  For a field with no enum whose type is neither boolean, integer nor number:
  if the widget hint is \<^verbatim>\<open>password\<close>, or there is no (non-empty) widget hint and the format
  is \<^verbatim>\<open>password\<close>, the control is a password input, so the text area rule is not reached.
\<close>

theorem renderForm_password_widget:
  assumes "sd_schema sd = Some s" and "sd_uiSchema sd = Some u"
    and "i < length (schema_properties s)" and "schema_properties s ! i = (n, fs)"
    and "fs_enum fs = None" and "fs_type fs \<noteq> Some ''boolean''"
    and "fs_type fs \<noteq> Some ''integer''" and "fs_type fs \<noteq> Some ''number''"
    and "ui_widget (uiField_of u n) = Some ''password''
         \<or> (\<not> truthy (ui_widget (uiField_of u n)) \<and> fs_format fs = Some ''password'')"
  shows "\<exists>r. renderForm parse sd = Inr r
           \<and> c_tag (fd_input (r_fields r ! i)) = INPUT
           \<and> c_type (fd_input (r_fields r ! i)) = Some ''password''
           \<and> c_name (fd_input (r_fields r ! i)) = n"
proof -
  from renderForm_nth [OF assms(1-4)] obtain r where
    r: "renderForm parse sd = Inr r" and d: "r_fields r ! i = render_field parse (schema_required s) u n fs"
    by blast
  from r d render_field_password [OF assms(5-9)] show ?thesis
    by (simp add: createElement_def)
qed

theorem renderForm_password_widget_witness:
  "\<exists>r. renderForm sample_parser (one_field_form ''secret'' secret_field []) = Inr r
       \<and> c_tag (fd_input (r_fields r ! 0)) = INPUT
       \<and> c_type (fd_input (r_fields r ! 0)) = Some ''password''
       \<and> c_name (fd_input (r_fields r ! 0)) = ''secret''"
proof -
  let ?s = "\<lparr> js_properties = Some [(''secret'', secret_field)], js_required = Some [] \<rparr>"
  have h1: "sd_schema (one_field_form ''secret'' secret_field []) = Some ?s"
    and h2: "sd_uiSchema (one_field_form ''secret'' secret_field []) = Some []"
    and h3: "0 < length (schema_properties ?s)"
    and h4: "schema_properties ?s ! 0 = (''secret'', secret_field)"
    and h5: "fs_enum secret_field = None"
    and h6: "fs_type secret_field \<noteq> Some ''boolean''"
    and h7: "fs_type secret_field \<noteq> Some ''integer''"
    and h8: "fs_type secret_field \<noteq> Some ''number''"
    and h9: "ui_widget (uiField_of [] ''secret'') = Some ''password''
             \<or> (\<not> truthy (ui_widget (uiField_of [] ''secret''))
                 \<and> fs_format secret_field = Some ''password'')"
    by (simp_all add: one_field_form_def schema_properties_def secret_field_def uiField_of_def
        truthy_def)
  from renderForm_password_widget [OF h1 h2 h3 h4 h5 h6 h7 h8 h9] show ?thesis .
qed

text \<open>
  C9, as the claim states it, fails: an integer field with an enum is drawn as a selection
  control, which gets no placeholder.
\<close>

theorem renderForm_integer_placeholder_counterexample:
  "fs_type level_field = Some ''integer'' \<and> ui_placeholder (uiField_of [] ''level'') = None
   \<and> renderForm sample_parser (one_field_form ''level'' level_field []) =
       Inr \<lparr> r_title = ''Form'', r_description = [], r_submit = ''Submit'',
             r_fields =
               [\<lparr> fd_label_text = ''level'', fd_label_marker = False, fd_label_for = ''level'',
                   fd_help = None, fd_help_controls = [],
                   fd_input =
                     \<lparr> c_tag = SELECT, c_type = None, c_id = ''level'', c_name = ''level'',
                       c_required = False, c_placeholder = None, c_rows = None,
                       c_options = [([], ''Select level''), (''1'', ''1''), (''2'', ''2'')],
                       c_value = [], c_checked = False \<rparr> \<rparr>] \<rparr>"
  by (simp add: level_field_def one_field_form_def renderForm_def
      schema_properties_def schema_required_def render_field_def help_controls_def
      uiField_of_def createElement_def js_or_def js_or_str_def truthy_def)

text \<open>
  C9, amended.  With no (non-empty) placeholder hint for the field: an integer field without
  enum gets the placeholder \<^verbatim>\<open>Enter a number\<close>, and a number field gets no placeholder.
\<close>

theorem renderForm_integer_placeholder:
  assumes "sd_schema sd = Some s" and "sd_uiSchema sd = Some u"
    and "i < length (schema_properties s)" and "schema_properties s ! i = (n, fs)"
    and "\<not> truthy (ui_placeholder (uiField_of u n))"
  shows "\<exists>r. renderForm parse sd = Inr r
           \<and> (fs_type fs = Some ''integer'' \<and> fs_enum fs = None
                \<longrightarrow> c_placeholder (fd_input (r_fields r ! i)) = Some ''Enter a number'')
           \<and> (fs_type fs = Some ''number''
                \<longrightarrow> c_placeholder (fd_input (r_fields r ! i)) = None)"
proof -
  from renderForm_nth [OF assms(1-4)] obtain r where
    r: "renderForm parse sd = Inr r" and d: "r_fields r ! i = render_field parse (schema_required s) u n fs"
    by blast
  from r d assms(5) show ?thesis
    by (simp add: render_field_placeholder split: option.splits)
qed

theorem renderForm_integer_placeholder_witness:
  "(\<exists>r. renderForm sample_parser (one_field_form ''age'' (plain_field ''integer'') []) = Inr r
        \<and> c_placeholder (fd_input (r_fields r ! 0)) = Some ''Enter a number'')
   \<and> (\<exists>r. renderForm sample_parser (one_field_form ''price'' (plain_field ''number'') []) = Inr r
        \<and> c_placeholder (fd_input (r_fields r ! 0)) = None)"
proof -
  let ?a = "\<lparr> js_properties = Some [(''age'', plain_field ''integer'')], js_required = Some [] \<rparr>"
  let ?p = "\<lparr> js_properties = Some [(''price'', plain_field ''number'')], js_required = Some [] \<rparr>"
  have a1: "sd_schema (one_field_form ''age'' (plain_field ''integer'') []) = Some ?a"
    and a2: "sd_uiSchema (one_field_form ''age'' (plain_field ''integer'') []) = Some []"
    and a3: "0 < length (schema_properties ?a)"
    and a4: "schema_properties ?a ! 0 = (''age'', plain_field ''integer'')"
    and a5: "\<not> truthy (ui_placeholder (uiField_of [] ''age''))"
    and a6: "fs_type (plain_field ''integer'') = Some ''integer'' \<and> fs_enum (plain_field ''integer'') = None"
    by (simp_all add: one_field_form_def schema_properties_def plain_field_def uiField_of_def
        truthy_def)
  have p1: "sd_schema (one_field_form ''price'' (plain_field ''number'') []) = Some ?p"
    and p2: "sd_uiSchema (one_field_form ''price'' (plain_field ''number'') []) = Some []"
    and p3: "0 < length (schema_properties ?p)"
    and p4: "schema_properties ?p ! 0 = (''price'', plain_field ''number'')"
    and p5: "\<not> truthy (ui_placeholder (uiField_of [] ''price''))"
    and p6: "fs_type (plain_field ''number'') = Some ''number''"
    by (simp_all add: one_field_form_def schema_properties_def plain_field_def uiField_of_def
        truthy_def)
  from renderForm_integer_placeholder [OF a1 a2 a3 a4 a5] a6
  have "\<exists>r. renderForm sample_parser (one_field_form ''age'' (plain_field ''integer'') []) = Inr r
        \<and> c_placeholder (fd_input (r_fields r ! 0)) = Some ''Enter a number''"
    by blast
  moreover from renderForm_integer_placeholder [OF p1 p2 p3 p4 p5] p6
  have "\<exists>r. renderForm sample_parser (one_field_form ''price'' (plain_field ''number'') []) = Inr r
        \<and> c_placeholder (fd_input (r_fields r ! 0)) = None"
    by blast
  ultimately show ?thesis by blast
qed

text \<open>
  C10.  renderForm is partial in \<^verbatim>\<open>uiSchema\<close>: with at least one entry in
  \<^verbatim>\<open>schema.properties\<close> and no \<^verbatim>\<open>uiSchema\<close> it throws a TypeError.  A missing
  \<^verbatim>\<open>schema.properties\<close> is drawn as a form without fields (also without \<^verbatim>\<open>uiSchema\<close>),
  like the empty mapping, and a missing \<^verbatim>\<open>schema.required\<close> is treated like the empty list.
\<close>

theorem renderForm_missing_keys:
  assumes "sd_schema sd = Some s"
  shows "(js_properties s = Some ps \<and> ps \<noteq> [] \<and> sd_uiSchema sd = None
            \<longrightarrow> renderForm parse sd = Inl TypeError)
       \<and> (js_properties s = None
            \<longrightarrow> (\<exists>r. renderForm parse sd = Inr r \<and> r_fields r = [])
              \<and> renderForm parse sd = renderForm parse (sd\<lparr>sd_schema := Some (s\<lparr>js_properties := Some []\<rparr>)\<rparr>))
       \<and> (js_required s = None
            \<longrightarrow> renderForm parse sd = renderForm parse (sd\<lparr>sd_schema := Some (s\<lparr>js_required := Some []\<rparr>)\<rparr>))"
proof (intro conjI impI)
  assume "js_properties s = Some ps \<and> ps \<noteq> [] \<and> sd_uiSchema sd = None"
  with assms show "renderForm parse sd = Inl TypeError"
    by (simp add: renderForm_def schema_properties_def render_fields_None)
next
  assume "js_properties s = None"
  with assms show "\<exists>r. renderForm parse sd = Inr r \<and> r_fields r = []"
    by (simp add: renderForm_def schema_properties_def)
next
  assume "js_properties s = None"
  with assms show "renderForm parse sd = renderForm parse (sd\<lparr>sd_schema := Some (s\<lparr>js_properties := Some []\<rparr>)\<rparr>)"
    by (simp add: renderForm_def schema_properties_def schema_required_def)
next
  assume "js_required s = None"
  with assms show "renderForm parse sd = renderForm parse (sd\<lparr>sd_schema := Some (s\<lparr>js_required := Some []\<rparr>)\<rparr>)"
    by (simp add: renderForm_def schema_properties_def schema_required_def split: sum.splits)
qed

theorem renderForm_missing_keys_witness:
  "renderForm sample_parser (signup_form\<lparr>sd_uiSchema := None\<rparr>) = Inl TypeError
   \<and> (\<exists>r. renderForm sample_parser (signup_form\<lparr>sd_schema := Some (signup_schema\<lparr>js_properties := None\<rparr>),
                                   sd_uiSchema := None\<rparr>) = Inr r \<and> r_fields r = [])
   \<and> renderForm sample_parser (signup_form\<lparr>sd_schema := Some (signup_schema\<lparr>js_required := None\<rparr>)\<rparr>) =
       renderForm sample_parser (signup_form\<lparr>sd_schema := Some (signup_schema\<lparr>js_required := Some []\<rparr>)\<rparr>)"
proof -
  let ?ps = "[(''age'', plain_field ''integer''), (''agree'', plain_field ''boolean'')]"
  have a: "sd_schema (signup_form\<lparr>sd_uiSchema := None\<rparr>) = Some signup_schema"
    and a': "js_properties signup_schema = Some ?ps \<and> ?ps \<noteq> []
             \<and> sd_uiSchema (signup_form\<lparr>sd_uiSchema := None\<rparr>) = None"
    by (simp_all add: signup_form_def signup_schema_def)
  let ?sd2 = "signup_form\<lparr>sd_schema := Some (signup_schema\<lparr>js_properties := None\<rparr>), sd_uiSchema := None\<rparr>"
  have b: "sd_schema ?sd2 = Some (signup_schema\<lparr>js_properties := None\<rparr>)"
    and b': "js_properties (signup_schema\<lparr>js_properties := None\<rparr>) = None"
    by simp_all
  let ?sd3 = "signup_form\<lparr>sd_schema := Some (signup_schema\<lparr>js_required := None\<rparr>)\<rparr>"
  have c: "sd_schema ?sd3 = Some (signup_schema\<lparr>js_required := None\<rparr>)"
    and c': "js_required (signup_schema\<lparr>js_required := None\<rparr>) = None"
    by simp_all
  from renderForm_missing_keys [OF a, of ?ps] a'
  have 1: "renderForm sample_parser (signup_form\<lparr>sd_uiSchema := None\<rparr>) = Inl TypeError" by blast
  from renderForm_missing_keys [OF b] b'
  have 2: "\<exists>r. renderForm sample_parser ?sd2 = Inr r \<and> r_fields r = []" by blast
  from renderForm_missing_keys [OF c] c'
  have 3: "renderForm sample_parser ?sd3 = renderForm sample_parser (?sd3\<lparr>sd_schema := Some (signup_schema\<lparr>js_required := None, js_required := Some []\<rparr>)\<rparr>)"
    by blast
  from 1 2 3 show ?thesis by simp
qed

section \<open>The submit listener\<close>

text \<open>The definitions that a round trip on a concrete form unfolds.\<close>

lemmas url_defs = getUrlParams_def match_form_path_def params_get_def alnum_def js_or_def
  js_or_str_def truthy_def

lemmas eval_defs = one_field_form_def plain_field_def root_location_def
  renderForm_def schema_properties_def schema_required_def render_field_def help_controls_def
  uiField_of_def createElement_def js_or_def js_or_str_def truthy_def
  submit_rendered_def submit_payload_def live_controls_def user_enters_def user_sets_checked_def
  querySelector_name_def css_plain_def el_type_def set_prop_def
  getUrlParams_def match_form_path_def params_get_def alnum_def

text \<open>
  No control that renderForm draws has the type \<^verbatim>\<open>number\<close>: the branch of line 216 is never
  taken on a rendered form.
\<close>

lemma render_field_never_number:
  "el_type (fd_input (render_field parse req u n fs)) \<noteq> ''number''"
  by (simp add: render_field_def createElement_def el_type_def Let_def split: option.splits)

text \<open>
  C1.  The listener does not do what the claim says.  A non-required integer field is drawn
  as a text input, so the listener takes the last branch: with \<^verbatim>\<open>42\<close> typed in, the payload
  holds the string \<^verbatim>\<open>"42"\<close>, and with the control left empty it holds the empty string,
  not \<^verbatim>\<open>null\<close>.
\<close>

theorem submit_numeric_field_raw_string:
  "submit_rendered sample_parser (one_field_form ''age'' (plain_field ''integer'') [])
       (user_enters ''age'' ''42'') root_location = Inr [(''age'', JString ''42'')]
   \<and> submit_rendered sample_parser (one_field_form ''age'' (plain_field ''integer'') [])
       id root_location = Inr [(''age'', JString [])]"
  by (simp add: eval_defs)

text \<open>
  C2.  The listener does not do what the claim says.  An unchecked checkbox has no entry in
  the FormData, so the loop never reaches it: the payload has no key for the field.  Once
  checked, the field is \<^verbatim>\<open>true\<close>.
\<close>

theorem submit_unchecked_toggle_absent:
  "submit_rendered sample_parser (one_field_form ''agree'' (plain_field ''boolean'') [])
       id root_location = Inr []
   \<and> submit_rendered sample_parser (one_field_form ''agree'' (plain_field ''boolean'') [])
       (user_sets_checked ''agree'' True) root_location = Inr [(''agree'', JBool True)]"
  by (simp add: eval_defs)


text \<open>The session id of a page, when it has one, is not empty.\<close>

lemma getUrlParams_sessionId_nonempty:
  "up_sessionId (getUrlParams loc) = Some sid \<Longrightarrow> sid \<noteq> []"
  by (auto simp add: getUrlParams_def Let_def js_or_def truthy_def match_form_path_def
      split: if_splits option.splits)










section \<open>generateForm\<close>

text \<open>
  What the first stage fetches, and what it yields on a page that is not a short URL and on
  a short URL whose configuration is found.
\<close>

lemma fetchSchema_pregenerated: "fetchSchema env params (Some d) p = (Inr d, p)"
  by (simp add: fetchSchema_def)

lemma resolveSession_fetches:
  "resolveSession env params p = (res, p1) \<Longrightarrow>
     pg_fetches p1 = pg_fetches p \<or> (\<exists>url. pg_fetches p1 = pg_fetches p @ [ConfigLookup url])"
  by (auto simp add: resolveSession_def showSection_def Let_def
      split: option.splits if_splits fetch_result.splits)

lemma resolveSession_not_short:
  "\<not> up_isShortUrl params \<Longrightarrow> resolveSession env params p = (Inr (params, None), p)"
  by (simp add: resolveSession_def split: option.splits)

lemma resolveSession_config:
  assumes "up_isShortUrl params" and "up_sessionId params = Some sid" and "sid \<noteq> []"
    and "config_api env (''/api/form-config/'' @ sid) = Response True cd"
    and "cd_success cd" and "cd_fields cd = Some fs"
  shows "resolveSession env params p =
           (Inr (params\<lparr>up_fields := join_comma fs, up_context := cd_context cd\<rparr>, cd_schema cd),
            p\<lparr>pg_visible := Loading,
              pg_fetches := pg_fetches p @ [ConfigLookup (''/api/form-config/'' @ sid)]\<rparr>)"
  using assms by (simp add: resolveSession_def showSection_def Let_def)

lemma generateForm_schema_call:
  assumes "pg_fetches p = []"
    and "SchemaGeneration u \<in> set (pg_fetches (generateForm env loc p))"
  shows "\<exists>params p1. resolveSession env (getUrlParams loc) p = (Inr (params, None), p1)"
proof -
  obtain res p1 where rs: "resolveSession env (getUrlParams loc) p = (res, p1)"
    by (cases "resolveSession env (getUrlParams loc) p")
  from resolveSession_fetches [OF rs] assms(1)
  have no: "SchemaGeneration u \<notin> set (pg_fetches p1)" by auto
  show ?thesis
  proof (cases res)
    case (Inl e)
    with rs no assms(2) show ?thesis
      by (simp add: generateForm_def showError_def showSection_def)
  next
    case (Inr pair)
    obtain params pre where pair: "pair = (params, pre)" by (cases pair)
    show ?thesis
    proof (cases pre)
      case None
      with rs Inr pair show ?thesis by simp
    next
      case (Some d)
      with rs Inr pair no assms(2) show ?thesis
        by (simp add: generateForm_def fetchSchema_pregenerated showError_def showSection_def
            Let_def split: if_splits sum.splits)
    qed
  qed
qed

text \<open>
  C7.  On a fresh page: when the lookup of a short URL's session succeeds with a non-empty
  field list and a pre-generated schema, generateForm fetches the configuration and nothing
  else, and the page shows what renderForm makes of that very schema (the form, or the
  error renderForm throws).  A call of the schema generation endpoint is made only when the
  first stage ended without a pre-generated schema.
\<close>

theorem generateForm_pregenerated_schema:
  assumes "pg_fetches p = []"
  shows "(up_isShortUrl (getUrlParams loc) \<and> up_sessionId (getUrlParams loc) = Some sid
          \<and> config_api env (''/api/form-config/'' @ sid) = Response True cd
          \<and> cd_success cd \<and> cd_fields cd = Some fs \<and> join_comma fs \<noteq> []
          \<and> cd_schema cd = Some d
          \<longrightarrow> pg_fetches (generateForm env loc p) = [ConfigLookup (''/api/form-config/'' @ sid)]
              \<and> (case renderForm (html_controls env) d of
                    Inr r \<Rightarrow> pg_visible (generateForm env loc p) = FormContainer
                             \<and> pg_form (generateForm env loc p) = Some r
                  | Inl e \<Rightarrow> pg_visible (generateForm env loc p) = ErrorSection
                             \<and> pg_error_message (generateForm env loc p) =
                                 ''Error generating form: '' @ message env e))
       \<and> (SchemaGeneration u \<in> set (pg_fetches (generateForm env loc p))
          \<longrightarrow> (\<exists>params p1. resolveSession env (getUrlParams loc) p = (Inr (params, None), p1)))"
proof (intro conjI impI)
  assume h: "up_isShortUrl (getUrlParams loc) \<and> up_sessionId (getUrlParams loc) = Some sid
          \<and> config_api env (''/api/form-config/'' @ sid) = Response True cd
          \<and> cd_success cd \<and> cd_fields cd = Some fs \<and> join_comma fs \<noteq> []
          \<and> cd_schema cd = Some d"
  then have "sid \<noteq> []" by (auto dest: getUrlParams_sessionId_nonempty)
  with h have rs: "resolveSession env (getUrlParams loc) p =
      (Inr ((getUrlParams loc)\<lparr>up_fields := join_comma fs, up_context := cd_context cd\<rparr>, Some d),
       p\<lparr>pg_visible := Loading,
         pg_fetches := pg_fetches p @ [ConfigLookup (''/api/form-config/'' @ sid)]\<rparr>)"
    by (simp add: resolveSession_config)
  from rs h assms
  show "pg_fetches (generateForm env loc p) = [ConfigLookup (''/api/form-config/'' @ sid)]"
    by (simp add: generateForm_def fetchSchema_pregenerated showError_def showSection_def
        Let_def split: sum.splits)
  from rs h
  show "case renderForm (html_controls env) d of
          Inr r \<Rightarrow> pg_visible (generateForm env loc p) = FormContainer
                   \<and> pg_form (generateForm env loc p) = Some r
        | Inl e \<Rightarrow> pg_visible (generateForm env loc p) = ErrorSection
                   \<and> pg_error_message (generateForm env loc p) =
                       ''Error generating form: '' @ message env e"
    by (simp add: generateForm_def fetchSchema_pregenerated showError_def showSection_def
        Let_def split: sum.splits)
next
  assume "SchemaGeneration u \<in> set (pg_fetches (generateForm env loc p))"
  with assms show "\<exists>params p1. resolveSession env (getUrlParams loc) p = (Inr (params, None), p1)"
    by (rule generateForm_schema_call)
qed

theorem generateForm_pregenerated_schema_witness:
  "pg_fetches fresh_page = []
   \<and> pg_fetches (generateForm session_env session_location fresh_page) =
       [ConfigLookup ''/api/form-config/abc123'']
   \<and> pg_visible (generateForm session_env session_location fresh_page) = FormContainer
   \<and> renderForm sample_parser signup_form = Inr (projr (renderForm sample_parser signup_form))
   \<and> pg_form (generateForm session_env session_location fresh_page) =
       Some (projr (renderForm sample_parser signup_form))
   \<and> SchemaGeneration ''/api/schema?fields=username%2Cemail''
       \<in> set (pg_fetches (generateForm offline_env fields_location fresh_page))
   \<and> (\<exists>params p1. resolveSession offline_env (getUrlParams fields_location) fresh_page =
                      (Inr (params, None), p1))"
proof -
  have fresh: "pg_fetches fresh_page = []" by (simp add: fresh_page_def)
  have h: "up_isShortUrl (getUrlParams session_location)
           \<and> up_sessionId (getUrlParams session_location) = Some ''abc123''
           \<and> config_api session_env (''/api/form-config/'' @ ''abc123'') = Response True signup_config
           \<and> cd_success signup_config \<and> cd_fields signup_config = Some [''age'', ''agree'']
           \<and> join_comma [''age'', ''agree''] \<noteq> []
           \<and> cd_schema signup_config = Some signup_form"
    by (simp add: session_location_def session_env_def signup_config_def url_defs)
  from renderForm_fields [of signup_form signup_schema "[]"]
  obtain r where r: "renderForm sample_parser signup_form = Inr r"
    by (auto simp add: signup_form_def)
  from generateForm_pregenerated_schema [OF fresh, of session_location "''abc123''" session_env
      signup_config "[''age'', ''agree'']" signup_form] h r
  have 1: "pg_fetches (generateForm session_env session_location fresh_page) =
             [ConfigLookup ''/api/form-config/abc123'']
           \<and> pg_visible (generateForm session_env session_location fresh_page) = FormContainer
           \<and> pg_form (generateForm session_env session_location fresh_page) = Some r"
    by (simp add: session_env_def)
  have call: "SchemaGeneration ''/api/schema?fields=username%2Cemail''
                \<in> set (pg_fetches (generateForm offline_env fields_location fresh_page))"
    by (simp add: generateForm_def resolveSession_def fetchSchema_def encodeURIComponent_def
        uri_unreserved_def hex_digit_def offline_env_def fields_location_def fresh_page_def
        showError_def showSection_def url_defs)
  from generateForm_pregenerated_schema [OF fresh, of fields_location _ offline_env _ _ _
      "''/api/schema?fields=username%2Cemail''"] call
  have 2: "\<exists>params p1. resolveSession offline_env (getUrlParams fields_location) fresh_page =
                      (Inr (params, None), p1)"
    by blast
  from fresh 1 r call 2 show ?thesis by simp
qed

text \<open>
  C8.  On a fresh page: when the first stage ends without error and the resolved
  \<^verbatim>\<open>fields\<close> is empty, generateForm ends on the error section with the fixed message that
  tells how to supply fields, and makes no schema generation call; on a page that is not a
  short URL it fetches nothing at all.  generateForm ends with a page in every case: each
  exception raised in its body is raised inside a \<^verbatim>\<open>try\<close> and caught.
\<close>

theorem generateForm_no_fields:
  assumes "pg_fetches p = []"
    and "resolveSession env (getUrlParams loc) p = (Inr (params, pre), p1)"
    and "up_fields params = []"
  shows "pg_visible (generateForm env loc p) = ErrorSection
       \<and> pg_error_message (generateForm env loc p) =
           ''No fields specified. Add ?fields=field1,field2 to the URL.''
       \<and> SchemaGeneration u \<notin> set (pg_fetches (generateForm env loc p))
       \<and> pg_fetches (generateForm env loc p) =
           (if up_isShortUrl (getUrlParams loc) then pg_fetches p1 else [])"
proof -
  from resolveSession_fetches [OF assms(2)] assms(1)
  have no: "SchemaGeneration u \<notin> set (pg_fetches p1)" by auto
  have gen: "generateForm env loc p =
               showError ''No fields specified. Add ?fields=field1,field2 to the URL.'' p1"
    using assms(2,3) by (simp add: generateForm_def)
  have "pg_fetches p1 = []" if "\<not> up_isShortUrl (getUrlParams loc)"
    using resolveSession_not_short [OF that, of env p] assms(1,2) by simp
  with gen no show ?thesis
    by (simp add: showError_def showSection_def)
qed

theorem generateForm_no_fields_witness:
  "pg_fetches fresh_page = []
   \<and> up_fields (getUrlParams root_location) = []
   \<and> pg_visible (generateForm offline_env root_location fresh_page) = ErrorSection
   \<and> pg_error_message (generateForm offline_env root_location fresh_page) =
       ''No fields specified. Add ?fields=field1,field2 to the URL.''
   \<and> pg_fetches (generateForm offline_env root_location fresh_page) = []
   \<and> pg_visible (generateForm empty_fields_env session_location fresh_page) = ErrorSection
   \<and> pg_error_message (generateForm empty_fields_env session_location fresh_page) =
       ''No fields specified. Add ?fields=field1,field2 to the URL.''
   \<and> pg_fetches (generateForm empty_fields_env session_location fresh_page) =
       [ConfigLookup ''/api/form-config/abc123'']"
proof -
  have fresh: "pg_fetches fresh_page = []" by (simp add: fresh_page_def)
  have short: "\<not> up_isShortUrl (getUrlParams root_location)"
    and empty: "up_fields (getUrlParams root_location) = []"
    by (simp_all add: root_location_def url_defs)
  have rs: "resolveSession offline_env (getUrlParams root_location) fresh_page =
              (Inr (getUrlParams root_location, None), fresh_page)"
    using short by (rule resolveSession_not_short)
  from generateForm_no_fields [OF fresh rs empty] short
  have 1: "pg_visible (generateForm offline_env root_location fresh_page) = ErrorSection
           \<and> pg_error_message (generateForm offline_env root_location fresh_page) =
               ''No fields specified. Add ?fields=field1,field2 to the URL.''
           \<and> pg_fetches (generateForm offline_env root_location fresh_page) = []"
    by simp
  let ?p1 = "fresh_page\<lparr>pg_visible := Loading,
               pg_fetches := pg_fetches fresh_page @ [ConfigLookup (''/api/form-config/'' @ ''abc123'')]\<rparr>"
  let ?params = "(getUrlParams session_location)\<lparr>up_fields := join_comma [],
                   up_context := cd_context (signup_config\<lparr>cd_fields := Some []\<rparr>)\<rparr>"
  have short2: "up_isShortUrl (getUrlParams session_location)"
    and sid: "up_sessionId (getUrlParams session_location) = Some ''abc123''"
    by (simp_all add: session_location_def url_defs)
  have rs2: "resolveSession empty_fields_env (getUrlParams session_location) fresh_page =
               (Inr (?params, cd_schema (signup_config\<lparr>cd_fields := Some []\<rparr>)), ?p1)"
    by (rule resolveSession_config [OF short2 sid])
       (simp_all add: empty_fields_env_def signup_config_def)
  have empty2: "up_fields ?params = []" by simp
  from generateForm_no_fields [OF fresh rs2 empty2] short2 fresh
  have 2: "pg_visible (generateForm empty_fields_env session_location fresh_page) = ErrorSection
           \<and> pg_error_message (generateForm empty_fields_env session_location fresh_page) =
               ''No fields specified. Add ?fields=field1,field2 to the URL.''
           \<and> pg_fetches (generateForm empty_fields_env session_location fresh_page) =
               [ConfigLookup ''/api/form-config/abc123'']"
    by simp
  from fresh empty 1 2 show ?thesis by simp
qed

end
